theory Spec2Isabelle
  imports Main
begin

section \<open>JavaScript values and built-ins used by the link\<close>

text \<open>
  A JavaScript string is modelled by the bytes of its UTF-8 encoding (\<open>string\<close> is a list
  of 8-bit characters). Only well-formed strings have such an encoding: a string with a lone
  surrogate, on which \<open>encodeURIComponent\<close> throws a URIError, is outside the model.

  The values that travel as \<open>variables\<close>, \<open>extensions\<close>, response data and error bodies are
  JSON-like trees. Numbers are integers only. \<open>JBigInt\<close> stands for the values on which
  \<open>JSON.stringify\<close> throws a TypeError (a BigInt; a circular structure has no finite tree).
  The keys of one \<open>JObj\<close> are meant to be distinct, as the keys of a JavaScript object are.
\<close>

datatype json =
    JNull
  | JBool bool
  | JNum int
  | JStr string
  | JArr "json list"
  | JObj "(string \<times> json) list"
  | JBigInt int

datatype js_error = TypeError string

text \<open>Array.prototype.join.\<close>

fun join :: "string \<Rightarrow> string list \<Rightarrow> string" where
  "join sep [] = []"
| "join sep [x] = x"
| "join sep (x # y # ys) = x @ sep @ join sep (y # ys)"

text \<open>String.prototype.indexOf for a one-character needle: the first position, or -1.\<close>

fun indexOf :: "string \<Rightarrow> char \<Rightarrow> int" where
  "indexOf [] c = - 1"
| "indexOf (x # xs) c =
     (if x = c then 0
      else (let i = indexOf xs c in if i = - 1 then - 1 else i + 1))"

text \<open>
  String.prototype.substr(start, length): a negative start counts from the end, a missing
  length takes the rest of the string.
\<close>

definition substr :: "string \<Rightarrow> int \<Rightarrow> int option \<Rightarrow> string" where
  "substr s start len =
     (let n = int (length s);
          from = nat (if start < 0 then max (n + start) 0 else start)
      in case len of
           None \<Rightarrow> drop from s
         | Some l \<Rightarrow> take (nat l) (drop from s))"

text \<open>
  encodeURIComponent: every byte outside the unreserved set
  \<open>A-Z a-z 0-9 - _ . ! ~ * ' ( )\<close> becomes \<open>%XX\<close> with upper-case hexadecimal digits.
\<close>

definition uriUnreserved :: "char \<Rightarrow> bool" where
  "uriUnreserved c \<longleftrightarrow>
     c \<in> set (''ABCDEFGHIJKLMNOPQRSTUVWXYZ'' @ ''abcdefghijklmnopqrstuvwxyz''
              @ ''0123456789'' @ ''-_.!~*()'' @ [CHR 0x27])"

definition hexDigitUpper :: "nat \<Rightarrow> char" where
  "hexDigitUpper n = ''0123456789ABCDEF'' ! (n mod 16)"

definition hexDigitLower :: "nat \<Rightarrow> char" where
  "hexDigitLower n = ''0123456789abcdef'' ! (n mod 16)"

definition percentEncode :: "char \<Rightarrow> string" where
  "percentEncode c =
     (if uriUnreserved c then [c]
      else [CHR ''%'', hexDigitUpper (of_char c div 16), hexDigitUpper (of_char c)])"

definition encodeURIComponent :: "string \<Rightarrow> string" where
  "encodeURIComponent s = concat (map percentEncode s)"

text \<open>Decimal digits of a natural number, and Number.prototype.toString on an integer.\<close>

function decimal :: "nat \<Rightarrow> string" where
  "decimal n =
     (if n < 10 then [''0123456789'' ! n]
      else decimal (n div 10) @ [''0123456789'' ! (n mod 10)])"
  by pat_completeness auto
termination
  by (relation "measure (\<lambda>n. n)") auto

definition numberToString :: "int \<Rightarrow> string" where
  "numberToString i = (if i < 0 then CHR ''-'' # decimal (nat (- i)) else decimal (nat i))"

text \<open>
  QuoteJSONString: the quote, the backslash and the control characters are escaped, every
  other byte is copied.
\<close>

definition escapeJSONChar :: "char \<Rightarrow> string" where
  "escapeJSONChar c =
     (if c = CHR 0x22 then [CHR 0x5C, CHR 0x22]
      else if c = CHR 0x5C then [CHR 0x5C, CHR 0x5C]
      else if c = CHR 0x08 then [CHR 0x5C, CHR ''b'']
      else if c = CHR 0x09 then [CHR 0x5C, CHR ''t'']
      else if c = CHR 0x0A then [CHR 0x5C, CHR ''n'']
      else if c = CHR 0x0C then [CHR 0x5C, CHR ''f'']
      else if c = CHR 0x0D then [CHR 0x5C, CHR ''r'']
      else if (of_char c :: nat) < 32
        then [CHR 0x5C, CHR ''u'', CHR ''0'', CHR ''0'',
              hexDigitLower (of_char c div 16), hexDigitLower (of_char c)]
      else [c])"

definition quoteJSONString :: "string \<Rightarrow> string" where
  "quoteJSONString s = [CHR 0x22] @ concat (map escapeJSONChar s) @ [CHR 0x22]"

text \<open>Running a list of computations in order; the first one that throws decides.\<close>

fun sequence_sum :: "('e + 'a) list \<Rightarrow> 'e + 'a list" where
  "sequence_sum [] = Inr []"
| "sequence_sum (Inl e # rs) = Inl e"
| "sequence_sum (Inr x # rs) =
     (case sequence_sum rs of Inl e \<Rightarrow> Inl e | Inr xs \<Rightarrow> Inr (x # xs))"

text \<open>JSON.stringify without indentation: a string, or the TypeError it throws.\<close>

fun stringify :: "json \<Rightarrow> js_error + string" where
  "stringify JNull = Inr ''null''"
| "stringify (JBool b) = Inr (if b then ''true'' else ''false'')"
| "stringify (JNum i) = Inr (numberToString i)"
| "stringify (JStr s) = Inr (quoteJSONString s)"
| "stringify (JArr xs) =
     (case sequence_sum (map stringify xs) of
        Inl e \<Rightarrow> Inl e
      | Inr ss \<Rightarrow> Inr (''['' @ join '','' ss @ '']''))"
| "stringify (JObj kvs) =
     (case sequence_sum
             (map (\<lambda>(k, v). case stringify v of
                                Inl e \<Rightarrow> Inl e
                              | Inr s \<Rightarrow> Inr (quoteJSONString k @ '':'' @ s)) kvs) of
        Inl e \<Rightarrow> Inl e
      | Inr ss \<Rightarrow> Inr (''{'' @ join '','' ss @ ''}''))"
| "stringify (JBigInt i) = Inl (TypeError ''Do not know how to serialize a BigInt'')"

text \<open>JavaScript's truth test on a value, and the same test on a string that may be undefined.\<close>

fun truthy :: "json \<Rightarrow> bool" where
  "truthy JNull = False"
| "truthy (JBool b) = b"
| "truthy (JNum i) = (i \<noteq> 0)"
| "truthy (JStr s) = (s \<noteq> [])"
| "truthy (JArr xs) = True"
| "truthy (JObj kvs) = True"
| "truthy (JBigInt i) = (i \<noteq> 0)"

fun truthyString :: "string option \<Rightarrow> bool" where
  "truthyString None = False"
| "truthyString (Some s) = (s \<noteq> [])"

text \<open>
  Reading a property: the value under the key of an object, undefined (\<open>None\<close>) on every
  other value that is not null.
\<close>

fun getProp :: "json \<Rightarrow> string \<Rightarrow> json option" where
  "getProp (JObj kvs) k = map_of kvs k"
| "getProp v k = None"

section \<open>GET serialization: rewriteURIForGET\<close>

text \<open>
  The request body of apollo-link-http-common. A field that is \<open>None\<close> is absent
  (undefined); \<open>variables\<close> and \<open>extensions\<close> are objects, given by their members.
\<close>

record body =
  query :: "string option"
  operationName :: "string option"
  variables :: "(string \<times> json) list option"
  extensions :: "(string \<times> json) list option"

text \<open>
  The error that serializeFetchParameter throws: it names the parameter (its label) and
  wraps the error of JSON.stringify.
\<close>

datatype client_parse_error = ClientParseError string js_error

text \<open>
  Modelled from the spec: serializeFetchParameter is imported from apollo-link-http-common,
  whose source is not part of this repository. The value is JSON-serialized to a string and a
  failure of the serialization is thrown as the parse error.
\<close>

definition serializeFetchParameter :: "json \<Rightarrow> string \<Rightarrow> client_parse_error + string" where
  "serializeFetchParameter p label =
     (case stringify p of
        Inl e \<Rightarrow> Inl (ClientParseError label e)
      | Inr serialized \<Rightarrow> Inr serialized)"

definition addQueryParam :: "string list \<Rightarrow> string \<Rightarrow> string \<Rightarrow> string list" where
  "addQueryParam queryParams key val = queryParams @ [key @ ''='' @ encodeURIComponent val]"

text \<open>
  The first half of the function of the source: the array \<open>queryParams\<close> after the four
  tests in their order, or the parse error that a \<open>catch\<close> returns at once.
\<close>

definition queryParams :: "body \<Rightarrow> client_parse_error + string list" where
  "queryParams b =
     (let queryParams0 = [];
          queryParams1 = (case body.query b of
                            Some q \<Rightarrow> addQueryParam queryParams0 ''query'' q
                          | None \<Rightarrow> queryParams0);
          queryParams2 = (case body.operationName b of
                            Some n \<Rightarrow> (if truthyString (Some n)
                                       then addQueryParam queryParams1 ''operationName'' n
                                       else queryParams1)
                          | None \<Rightarrow> queryParams1)
      in case (case body.variables b of
                 None \<Rightarrow> Inr queryParams2
               | Some vs \<Rightarrow>
                   (case serializeFetchParameter (JObj vs) ''Variables map'' of
                      Inl parseError \<Rightarrow> Inl parseError
                    | Inr serializedVariables \<Rightarrow>
                        Inr (addQueryParam queryParams2 ''variables'' serializedVariables))) of
           Inl parseError \<Rightarrow> Inl parseError
         | Inr queryParams3 \<Rightarrow>
            (case body.extensions b of
               None \<Rightarrow> Inr queryParams3
             | Some es \<Rightarrow>
                 (case serializeFetchParameter (JObj es) ''Extensions map'' of
                    Inl parseError \<Rightarrow> Inl parseError
                  | Inr serializedExtensions \<Rightarrow>
                      Inr (addQueryParam queryParams3 ''extensions'' serializedExtensions))))"

text \<open>
  The whole function: the parameters, then the reconstruction of the URI around the
  fragment.
\<close>

definition rewriteURIForGET :: "string \<Rightarrow> body \<Rightarrow> client_parse_error + string" where
  "rewriteURIForGET chosenURI b =
     (case queryParams b of
        Inl parseError \<Rightarrow> Inl parseError
      | Inr params \<Rightarrow>
          (let fragmentStart = indexOf chosenURI (CHR ''#'');
               fragment = (if fragmentStart \<noteq> - 1
                           then substr chosenURI fragmentStart None else []);
               preFragment = (if fragmentStart \<noteq> - 1
                              then substr chosenURI 0 (Some fragmentStart) else chosenURI);
               queryParamsPrefix = (if indexOf preFragment (CHR ''?'') = - 1
                                    then ''?'' else ''&'')
           in Inr (preFragment @ queryParamsPrefix @ join ''&'' params @ fragment)))"

section \<open>The operation, its context and the configuration layers\<close>

datatype operation_type = Query | Mutation | Subscription

text \<open>
  A top-level definition of a GraphQL document: only an operation definition carries an
  operation type; every other kind of definition is a fragment or belongs to a type system.
\<close>

datatype definition_node =
    OperationDefinition operation_type
  | FragmentDefinition
  | TypeSystemDefinition

text \<open>The query document, with the text that the GraphQL printer gives for it.\<close>

record document_node =
  definitions :: "definition_node list"
  printed :: string

record client_awareness =
  name :: "string option"
  version :: "string option"

text \<open>The field \<open>method\<close> of the source is written \<open>method'\<close> here and below.\<close>

record fetch_options =
  method' :: "string option"

record http_query_options =
  includeExtensions :: "bool option"

text \<open>
  What \<open>operation.getContext()\<close> returns. A header map that is undefined spreads to
  nothing, as the empty map does.
\<close>

record operation_context =
  clientAwareness :: "client_awareness option"
  headers :: "string \<rightharpoonup> string"
  http :: "http_query_options option"
  fetchOptions :: "fetch_options option"
  credentials :: "string option"

record operation =
  query :: document_node
  operationName :: "string option"
  variables :: "(string \<times> json) list option"
  extensions :: "(string \<times> json) list option"
  getContext :: operation_context

datatype uri_option = UriString string | UriFunction "operation \<Rightarrow> string"

text \<open>The options of the link (\<open>Options\<close>); \<open>None\<close> is a field left out.\<close>

record link_options =
  uri :: "uri_option option"
  includeExtensions :: "bool option"
  useGETForQueries :: "bool option"
  fetchOptions :: "fetch_options option"
  credentials :: "string option"
  headers :: "string \<rightharpoonup> string"

text \<open>One configuration layer (\<open>HttpConfig\<close>), as \<open>linkConfig\<close> and \<open>contextConfig\<close> are built.\<close>

record http_config =
  http :: "http_query_options option"
  options :: "fetch_options option"
  credentials :: "string option"
  headers :: "string \<rightharpoonup> string"

text \<open>The merged options, to which the handler assigns \<open>method\<close> and \<open>body\<close>.\<close>

record request_options =
  method' :: "string option"
  headers :: "string \<rightharpoonup> string"
  credentials :: "string option"
  body :: "body option"

text \<open>
  Modelled from the spec: selectURI is imported from apollo-link-http-common, whose source
  is not part of this repository. A function is called with the operation, a string is used
  as it is.
\<close>

definition selectURI :: "operation \<Rightarrow> uri_option \<Rightarrow> string" where
  "selectURI operation fallbackURI =
     (case fallbackURI of
        UriFunction f \<Rightarrow> f operation
      | UriString s \<Rightarrow> s)"

text \<open>
  Modelled from the spec: selectHttpOptionsAndBody is imported from apollo-link-http-common,
  whose source is not part of this repository. The layers are folded from left to right over
  the fallback: headers are overridden key by key, every other field takes the value of the
  last layer that defines it. The body carries the printed query, the operation name and the
  variables, and the extensions only when the merged flag is set.
\<close>

definition mergeConfig ::
  "request_options \<times> http_query_options \<Rightarrow> http_config \<Rightarrow> request_options \<times> http_query_options"
where
  "mergeConfig acc config =
     (let opts = fst acc; flags = snd acc
      in (opts\<lparr> request_options.method' :=
                   (case http_config.options config of
                      None \<Rightarrow> request_options.method' opts
                    | Some fo \<Rightarrow> (case fetch_options.method' fo of
                                   None \<Rightarrow> request_options.method' opts
                                 | Some m \<Rightarrow> Some m)),
                 request_options.headers :=
                   request_options.headers opts ++ http_config.headers config,
                 request_options.credentials :=
                   (case http_config.credentials config of
                      None \<Rightarrow> request_options.credentials opts
                    | Some c \<Rightarrow> Some c) \<rparr>,
          flags\<lparr> http_query_options.includeExtensions :=
                   (case http_config.http config of
                      None \<Rightarrow> http_query_options.includeExtensions flags
                    | Some h \<Rightarrow> (case http_query_options.includeExtensions h of
                                  None \<Rightarrow> http_query_options.includeExtensions flags
                                | Some b \<Rightarrow> Some b)) \<rparr>))"

definition selectHttpOptionsAndBody ::
  "operation \<Rightarrow> http_config \<Rightarrow> http_config list \<Rightarrow> request_options \<times> body"
where
  "selectHttpOptionsAndBody operation fallbackConfig configs =
     (let start =
            (\<lparr> request_options.method' =
                 (case http_config.options fallbackConfig of
                    None \<Rightarrow> None
                  | Some fo \<Rightarrow> fetch_options.method' fo),
               request_options.headers = http_config.headers fallbackConfig,
               request_options.credentials = http_config.credentials fallbackConfig,
               request_options.body = None \<rparr>,
             (case http_config.http fallbackConfig of
                None \<Rightarrow> \<lparr> http_query_options.includeExtensions = None \<rparr>
              | Some h \<Rightarrow> h));
          merged = foldl mergeConfig start configs
      in (fst merged,
          \<lparr> body.query = Some (printed (operation.query operation)),
            body.operationName = operation.operationName operation,
            body.variables = operation.variables operation,
            body.extensions =
              (if http_query_options.includeExtensions (snd merged) = Some True
               then operation.extensions operation else None) \<rparr>))"

text \<open>
  Modelled from the spec: fallbackHttpConfig is imported from apollo-link-http-common. The
  spec gives its method (POST) and its extension flag (off) and names no header of it; the
  handler below takes the fallback as an argument, so that what is proved of the handler
  holds for every fallback.
\<close>

definition fallbackHttpConfig :: http_config where
  "fallbackHttpConfig =
     \<lparr> http_config.http = Some \<lparr> http_query_options.includeExtensions = Some False \<rparr>,
       http_config.options = Some \<lparr> fetch_options.method' = Some ''POST'' \<rparr>,
       http_config.credentials = None,
       http_config.headers = Map.empty \<rparr>"

section \<open>The transport capability and the stream\<close>

text \<open>The configuration handed to \<open>Http.request\<close>.\<close>

record http_request =
  url :: string
  method' :: "string option"
  data :: "body option"
  headers :: "string \<rightharpoonup> string"

record http_response =
  data :: json

text \<open>What the handlers read of a rejection: \<open>err.name\<close> and \<open>err.result\<close>.\<close>

record transport_error =
  name :: "string option"
  result :: "json option"

text \<open>The promise of one call resolves, rejects, or never settles.\<close>

datatype outcome = Resolves http_response | Rejects transport_error | Pending

datatype link_error = ParseError client_parse_error | TransportError transport_error

datatype stream_event = Next json | Error link_error | Complete

text \<open>
  The two observables that the handler can return: \<open>fromError(parseError)\<close>, and the
  observable whose subscriber function calls \<open>Http.request\<close> with a configuration.
\<close>

datatype link_result = FromError client_parse_error | NewObservable http_request

text \<open>The calls received by the transport and the events delivered to the observer.\<close>

record trace =
  calls :: "http_request list"
  events :: "stream_event list"

section \<open>The request handler of createHttpLink\<close>

fun definitionIsMutation :: "definition_node \<Rightarrow> bool" where
  "definitionIsMutation (OperationDefinition op) = (op = Mutation)"
| "definitionIsMutation d = False"

definition linkConfig :: "link_options \<Rightarrow> http_config" where
  "linkConfig linkOptions =
     \<lparr> http_config.http =
         Some \<lparr> http_query_options.includeExtensions =
                  link_options.includeExtensions linkOptions \<rparr>,
       http_config.options = link_options.fetchOptions linkOptions,
       http_config.credentials = link_options.credentials linkOptions,
       http_config.headers = link_options.headers linkOptions \<rparr>"

definition clientAwarenessHeaders :: "operation_context \<Rightarrow> (string \<rightharpoonup> string)" where
  "clientAwarenessHeaders context =
     (case clientAwareness context of
        None \<Rightarrow> Map.empty
      | Some ca \<Rightarrow>
          (let h0 = Map.empty;
               h1 = (case client_awareness.name ca of
                       Some n \<Rightarrow> (if truthyString (Some n)
                                  then h0(''apollographql-client-name'' \<mapsto> n) else h0)
                     | None \<Rightarrow> h0);
               h2 = (case client_awareness.version ca of
                       Some v \<Rightarrow> (if truthyString (Some v)
                                  then h1(''apollographql-client-version'' \<mapsto> v) else h1)
                     | None \<Rightarrow> h1)
           in h2))"

definition contextHeaders :: "operation_context \<Rightarrow> (string \<rightharpoonup> string)" where
  "contextHeaders context = clientAwarenessHeaders context ++ operation_context.headers context"

definition contextConfig :: "operation_context \<Rightarrow> http_config" where
  "contextConfig context =
     \<lparr> http_config.http = operation_context.http context,
       http_config.options = operation_context.fetchOptions context,
       http_config.credentials = operation_context.credentials context,
       http_config.headers = contextHeaders context \<rparr>"

text \<open>
  The statement \<open>if (useGETForQueries && !definitions.some(definitionIsMutation))
  options.method = 'GET'\<close>.
\<close>

definition setMethodForQueries ::
  "link_options \<Rightarrow> operation \<Rightarrow> request_options \<Rightarrow> request_options"
where
  "setMethodForQueries linkOptions operation opts =
     (if useGETForQueries linkOptions = Some True
         \<and> \<not> list_ex definitionIsMutation (definitions (operation.query operation))
      then opts\<lparr> request_options.method' := Some ''GET'' \<rparr>
      else opts)"

text \<open>
  The pair \<open>{ options, body }\<close> that the handler takes from selectHttpOptionsAndBody, called
  with the fallback, the configuration of the link and the configuration of the context.
\<close>

definition optionsAndBody :: "http_config \<Rightarrow> link_options \<Rightarrow> operation \<Rightarrow> request_options \<times> body" where
  "optionsAndBody fallbackConfig linkOptions operation =
     selectHttpOptionsAndBody operation fallbackConfig
       [linkConfig linkOptions, contextConfig (getContext operation)]"

definition chosenURI :: "link_options \<Rightarrow> operation \<Rightarrow> string" where
  "chosenURI linkOptions operation =
     selectURI operation
       (case link_options.uri linkOptions of
          None \<Rightarrow> UriString ''/graphql''
        | Some u \<Rightarrow> u)"

text \<open>
  The handler, for one operation. The fallback configuration is the first argument (see
  \<open>fallbackHttpConfig\<close>). The result is the observable that the handler returns.
\<close>

definition createHttpLink :: "http_config \<Rightarrow> link_options \<Rightarrow> operation \<Rightarrow> link_result" where
  "createHttpLink fallbackConfig linkOptions operation =
     (let selected = optionsAndBody fallbackConfig linkOptions operation;
          opts = setMethodForQueries linkOptions operation (fst selected);
          body = snd selected
      in if request_options.method' opts = Some ''GET''
         then (case rewriteURIForGET (chosenURI linkOptions operation) body of
                 Inl parseError \<Rightarrow> FromError parseError
               | Inr newURI \<Rightarrow>
                   NewObservable
                     \<lparr> http_request.url = newURI,
                       http_request.method' = request_options.method' opts,
                       http_request.data = request_options.body opts,
                       http_request.headers =
                         (request_options.headers opts)(''Content-Type'' \<mapsto> ''application/json'') \<rparr>)
         else (let opts' = opts\<lparr> request_options.body := Some body \<rparr>
               in NewObservable
                    \<lparr> http_request.url = chosenURI linkOptions operation,
                      http_request.method' = request_options.method' opts',
                      http_request.data = request_options.body opts',
                      http_request.headers =
                        (request_options.headers opts')(''Content-Type'' \<mapsto> ''application/json'') \<rparr>))"

text \<open>The \<open>then\<close> handler: \<open>observer.next(result.data); observer.complete()\<close>.\<close>

definition onFulfilled :: "http_response \<Rightarrow> stream_event list" where
  "onFulfilled res = [Next (http_response.data res), Complete]"

text \<open>The test \<open>err.result && err.result.errors && err.result.data\<close>.\<close>

definition truthyProp :: "json \<Rightarrow> string \<Rightarrow> bool" where
  "truthyProp v k = (case getProp v k of None \<Rightarrow> False | Some w \<Rightarrow> truthy w)"

definition hasErrorsAndData :: "transport_error \<Rightarrow> bool" where
  "hasErrorsAndData err =
     (case transport_error.result err of
        None \<Rightarrow> False
      | Some r \<Rightarrow> truthy r \<and> truthyProp r ''errors'' \<and> truthyProp r ''data'')"

text \<open>The \<open>catch\<close> handler.\<close>

definition onRejected :: "transport_error \<Rightarrow> stream_event list" where
  "onRejected err =
     (if transport_error.name err = Some ''AbortError'' then []
      else (case transport_error.result err of
              Some r \<Rightarrow> (if hasErrorsAndData err then [Next r] else [])
            | None \<Rightarrow> [])
           @ [Error (TransportError err)])"

text \<open>
  One subscription to the returned observable. \<open>fromError\<close> delivers its error and calls
  nothing. The other observable calls the transport once with its configuration; the events
  are those of the handler that the settled promise runs, none while it is pending. The
  methods of the observer return normally, so the \<open>catch\<close> handler runs on a rejection of
  the call only.
\<close>

fun subscribe :: "(http_request \<Rightarrow> outcome) \<Rightarrow> link_result \<Rightarrow> trace \<Rightarrow> trace" where
  "subscribe request (FromError parseError) t =
     t\<lparr> events := events t @ [Error (ParseError parseError)] \<rparr>"
| "subscribe request (NewObservable config) t =
     \<lparr> calls = calls t @ [config],
       events = events t @
         (case request config of
            Resolves res \<Rightarrow> onFulfilled res
          | Rejects err \<Rightarrow> onRejected err
          | Pending \<Rightarrow> []) \<rparr>"

text \<open>One operation: the handler is invoked and its stream is subscribed to once.\<close>

definition execute ::
  "(http_request \<Rightarrow> outcome) \<Rightarrow> http_config \<Rightarrow> link_options \<Rightarrow> operation \<Rightarrow> trace \<Rightarrow> trace"
where
  "execute request fallbackConfig linkOptions operation t =
     subscribe request (createHttpLink fallbackConfig linkOptions operation) t"

definition emptyTrace :: trace where
  "emptyTrace = \<lparr> calls = [], events = [] \<rparr>"

text \<open>The values bound to one header name in the calls of a trace, call by call.\<close>

definition sentHeader :: "string \<Rightarrow> trace \<Rightarrow> string option list" where
  "sentHeader k t = map (\<lambda>config. http_request.headers config k) (calls t)"

section \<open>Concrete operations, options and transports\<close>

text \<open>The inputs at which the theorems below are instantiated.\<close>

definition plainContext :: operation_context where
  "plainContext =
     \<lparr> clientAwareness = None,
       operation_context.headers = Map.empty,
       operation_context.http = None,
       operation_context.fetchOptions = None,
       operation_context.credentials = None \<rparr>"

definition queryOperation :: operation where
  "queryOperation =
     \<lparr> operation.query = \<lparr> definitions = [OperationDefinition Query], printed = ''{a}'' \<rparr>,
       operation.operationName = None,
       operation.variables = Some [(''x'', JNum 1)],
       operation.extensions = None,
       getContext = plainContext \<rparr>"

definition mutationOperation :: operation where
  "mutationOperation =
     \<lparr> operation.query =
         \<lparr> definitions = [FragmentDefinition, OperationDefinition Mutation],
           printed = ''mutation{b}'' \<rparr>,
       operation.operationName = None,
       operation.variables = None,
       operation.extensions = None,
       getContext = plainContext \<rparr>"

definition defaultLinkOptions :: link_options where
  "defaultLinkOptions =
     \<lparr> uri = None,
       link_options.includeExtensions = None,
       useGETForQueries = None,
       link_options.fetchOptions = None,
       link_options.credentials = None,
       link_options.headers = Map.empty \<rparr>"

definition getLinkOptions :: link_options where
  "getLinkOptions = defaultLinkOptions\<lparr> useGETForQueries := Some True \<rparr>"

definition postOptions :: request_options where
  "postOptions =
     \<lparr> request_options.method' = Some ''POST'',
       request_options.headers = Map.empty,
       request_options.credentials = None,
       request_options.body = None \<rparr>"

definition extensionsLinkOptions :: link_options where
  "extensionsLinkOptions = getLinkOptions\<lparr> link_options.includeExtensions := Some True \<rparr>"

definition bigIntVariablesOperation :: operation where
  "bigIntVariablesOperation =
     queryOperation\<lparr> operation.variables := Some [(''n'', JBigInt 1)],
                     operation.extensions := Some [(''m'', JBigInt 2)] \<rparr>"

definition bigIntExtensionsOperation :: operation where
  "bigIntExtensionsOperation =
     queryOperation\<lparr> operation.extensions := Some [(''m'', JBigInt 2)] \<rparr>"

definition awareContext :: operation_context where
  "awareContext =
     plainContext\<lparr> clientAwareness :=
                      Some \<lparr> client_awareness.name = Some ''app'',
                             client_awareness.version = Some ''1.0'' \<rparr> \<rparr>"

definition awareOperation :: operation where
  "awareOperation = queryOperation\<lparr> getContext := awareContext \<rparr>"

definition overrideOperation :: operation where
  "overrideOperation =
     queryOperation\<lparr> getContext :=
       awareContext\<lparr> operation_context.headers :=
                        [''apollographql-client-name'' \<mapsto> ''override''] \<rparr> \<rparr>"

definition emptyNameOperation :: operation where
  "emptyNameOperation =
     queryOperation\<lparr> getContext :=
       plainContext\<lparr> clientAwareness :=
                        Some \<lparr> client_awareness.name = Some [],
                               client_awareness.version = Some ''1.0'' \<rparr> \<rparr> \<rparr>"

definition plainTextLinkOptions :: link_options where
  "plainTextLinkOptions =
     getLinkOptions\<lparr> link_options.headers := [''Content-Type'' \<mapsto> ''text/plain''] \<rparr>"

definition plainTextOperation :: operation where
  "plainTextOperation =
     mutationOperation\<lparr> getContext :=
       plainContext\<lparr> operation_context.headers := [''Content-Type'' \<mapsto> ''text/html''] \<rparr> \<rparr>"

definition plainBody :: body where
  "plainBody =
     \<lparr> body.query = Some ''{a}'',
       body.operationName = None,
       body.variables = Some [(''x'', JNum 1)],
       body.extensions = None \<rparr>"

definition queryOnlyBody :: body where
  "queryOnlyBody =
     \<lparr> body.query = Some ''{a}'',
       body.operationName = None,
       body.variables = None,
       body.extensions = None \<rparr>"

definition emptyNameBody :: body where
  "emptyNameBody = queryOnlyBody\<lparr> body.operationName := Some [] \<rparr>"

definition resolvingTransport :: "http_request \<Rightarrow> outcome" where
  "resolvingTransport config = Resolves \<lparr> http_response.data = JObj [(''foo'', JNum 1)] \<rparr>"

definition partialResult :: json where
  "partialResult =
     JObj [(''errors'', JArr [JObj [(''message'', JStr ''boom'')]]),
           (''data'', JObj [(''a'', JNull)])]"

definition partialError :: transport_error where
  "partialError =
     \<lparr> transport_error.name = Some ''Error'', transport_error.result = Some partialResult \<rparr>"

definition rejectingTransport :: "http_request \<Rightarrow> outcome" where
  "rejectingTransport config = Rejects partialError"

definition abortError :: transport_error where
  "abortError =
     \<lparr> transport_error.name = Some ''AbortError'', transport_error.result = None \<rparr>"

definition abortingTransport :: "http_request \<Rightarrow> outcome" where
  "abortingTransport config = Rejects abortError"

definition abortErrorWithResult :: transport_error where
  "abortErrorWithResult = partialError\<lparr> transport_error.name := Some ''AbortError'' \<rparr>"

definition abortingWithResultTransport :: "http_request \<Rightarrow> outcome" where
  "abortingWithResultTransport config = Rejects abortErrorWithResult"

definition nullDataResult :: json where
  "nullDataResult =
     JObj [(''errors'', JArr [JObj [(''message'', JStr ''boom'')]]), (''data'', JNull)]"

definition nullDataError :: transport_error where
  "nullDataError =
     \<lparr> transport_error.name = Some ''Error'', transport_error.result = Some nullDataResult \<rparr>"

definition nullDataTransport :: "http_request \<Rightarrow> outcome" where
  "nullDataTransport config = Rejects nullDataError"

text \<open>
  The parameters of claim C2 in its own words, for comparison with \<open>queryParams\<close>: every
  field that is on the body gives a parameter, in the fixed order.
\<close>

definition statedQueryParams :: "body \<Rightarrow> string list" where
  "statedQueryParams b =
     (case body.query b of
        Some q \<Rightarrow> [''query='' @ encodeURIComponent q] | None \<Rightarrow> [])
     @ (case body.operationName b of
          Some n \<Rightarrow> [''operationName='' @ encodeURIComponent n] | None \<Rightarrow> [])
     @ (case body.variables b of
          Some vs \<Rightarrow> (case stringify (JObj vs) of
                       Inr s \<Rightarrow> [''variables='' @ encodeURIComponent s] | Inl e \<Rightarrow> [])
        | None \<Rightarrow> [])
     @ (case body.extensions b of
          Some es \<Rightarrow> (case stringify (JObj es) of
                       Inr s \<Rightarrow> [''extensions='' @ encodeURIComponent s] | Inl e \<Rightarrow> [])
        | None \<Rightarrow> [])"

section \<open>Auxiliary facts\<close>

lemmas model_defs =
  createHttpLink_def optionsAndBody_def selectHttpOptionsAndBody_def mergeConfig_def
  linkConfig_def contextConfig_def contextHeaders_def clientAwarenessHeaders_def
  setMethodForQueries_def chosenURI_def selectURI_def

lemmas example_defs =
  plainContext_def queryOperation_def mutationOperation_def defaultLinkOptions_def
  getLinkOptions_def fallbackHttpConfig_def

lemmas serialize_defs =
  rewriteURIForGET_def queryParams_def addQueryParam_def serializeFetchParameter_def
  encodeURIComponent_def percentEncode_def uriUnreserved_def hexDigitUpper_def
  quoteJSONString_def escapeJSONChar_def numberToString_def substr_def

lemma indexOf_ge: "- 1 \<le> indexOf s c"
  by (induction s) (auto simp: Let_def)

lemma indexOf_absent: "(indexOf s c = - 1) = (c \<notin> set s)"
proof (induction s)
  case Nil
  show ?case by simp
next
  case (Cons x xs)
  have "- 1 \<le> indexOf xs c" by (rule indexOf_ge)
  with Cons show ?case by (auto simp: Let_def)
qed

lemma indexOf_takeWhile:
  "c \<in> set s \<Longrightarrow> indexOf s c = int (length (takeWhile (\<lambda>x. x \<noteq> c) s))"
proof (induction s)
  case Nil
  then show ?case by simp
next
  case (Cons x xs)
  show ?case
  proof (cases "x = c")
    case True
    then show ?thesis by simp
  next
    case False
    with Cons.prems have mem: "c \<in> set xs" by simp
    then have "indexOf xs c \<noteq> - 1" by (simp add: indexOf_absent)
    with False Cons.IH [OF mem] show ?thesis by (simp add: Let_def)
  qed
qed

lemma take_length_takeWhile: "take (length (takeWhile P xs)) xs = takeWhile P xs"
  by (induction xs) auto

lemma drop_length_takeWhile: "drop (length (takeWhile P xs)) xs = dropWhile P xs"
  by (induction xs) auto

lemma reconstruct:
  "queryParams b = Inr ps \<Longrightarrow>
   rewriteURIForGET u b =
     Inr (takeWhile (\<lambda>x. x \<noteq> CHR ''#'') u
          @ (if CHR ''?'' \<in> set (takeWhile (\<lambda>x. x \<noteq> CHR ''#'') u) then ''&'' else ''?'')
          @ join ''&'' ps
          @ dropWhile (\<lambda>x. x \<noteq> CHR ''#'') u)"
proof (cases "CHR ''#'' \<in> set u")
  case True
  assume qp: "queryParams b = Inr ps"
  from True have ne: "indexOf u (CHR ''#'') \<noteq> - 1" by (simp add: indexOf_absent)
  from True have ix: "indexOf u (CHR ''#'') = int (length (takeWhile (\<lambda>x. x \<noteq> CHR ''#'') u))"
    by (rule indexOf_takeWhile)
  show ?thesis
    using qp ne
    by (simp add: rewriteURIForGET_def Let_def substr_def ix indexOf_absent
        take_length_takeWhile drop_length_takeWhile)
next
  case False
  assume qp: "queryParams b = Inr ps"
  from False have e: "indexOf u (CHR ''#'') = - 1" by (simp add: indexOf_absent)
  from False have tw: "takeWhile (\<lambda>x. x \<noteq> CHR ''#'') u = u" by (auto simp: takeWhile_eq_all_conv)
  from False have dw: "dropWhile (\<lambda>x. x \<noteq> CHR ''#'') u = []" by (auto simp: dropWhile_eq_Nil_conv)
  show ?thesis
    using qp by (simp add: rewriteURIForGET_def Let_def e tw dw indexOf_absent)
qed

lemma merged_method:
  "request_options.method' (fst (optionsAndBody fb lo op)) =
     (case operation_context.fetchOptions (getContext op) of
        Some fo \<Rightarrow> (case fetch_options.method' fo of Some m \<Rightarrow> Some m | None \<Rightarrow>
            (case link_options.fetchOptions lo of Some fo' \<Rightarrow> (case fetch_options.method' fo' of Some m \<Rightarrow> Some m | None \<Rightarrow> (case http_config.options fb of None \<Rightarrow> None | Some f \<Rightarrow> fetch_options.method' f))
              | None \<Rightarrow> (case http_config.options fb of None \<Rightarrow> None | Some f \<Rightarrow> fetch_options.method' f)))
      | None \<Rightarrow> (case link_options.fetchOptions lo of Some fo' \<Rightarrow> (case fetch_options.method' fo' of Some m \<Rightarrow> Some m | None \<Rightarrow> (case http_config.options fb of None \<Rightarrow> None | Some f \<Rightarrow> fetch_options.method' f))
              | None \<Rightarrow> (case http_config.options fb of None \<Rightarrow> None | Some f \<Rightarrow> fetch_options.method' f)))"
  by (simp add: optionsAndBody_def selectHttpOptionsAndBody_def mergeConfig_def Let_def
      linkConfig_def contextConfig_def split: option.splits)

lemma merged_headers:
  "request_options.headers (fst (optionsAndBody fb lo op)) =
     http_config.headers fb ++ link_options.headers lo ++ contextHeaders (getContext op)"
  by (simp add: optionsAndBody_def selectHttpOptionsAndBody_def mergeConfig_def Let_def
      linkConfig_def contextConfig_def)

lemma setMethodForQueries_headers:
  "request_options.headers (setMethodForQueries lo op opts) = request_options.headers opts"
  by (simp add: setMethodForQueries_def)

lemma request_method:
  "createHttpLink fb lo op = NewObservable config \<Longrightarrow>
   http_request.method' config =
     request_options.method' (setMethodForQueries lo op (fst (optionsAndBody fb lo op)))"
  by (auto simp: createHttpLink_def Let_def split: if_splits sum.splits)

lemma request_headers:
  "createHttpLink fb lo op = NewObservable config \<Longrightarrow>
   http_request.headers config =
     (request_options.headers (fst (optionsAndBody fb lo op)))
       (''Content-Type'' \<mapsto> ''application/json'')"
  by (auto simp: createHttpLink_def Let_def setMethodForQueries_headers split: if_splits sum.splits)

lemma parse_error_result:
  "request_options.method' (setMethodForQueries lo op (fst (optionsAndBody fb lo op))) = Some ''GET'' \<Longrightarrow>
   rewriteURIForGET (chosenURI lo op) (snd (optionsAndBody fb lo op)) = Inl pe \<Longrightarrow>
   createHttpLink fb lo op = FromError pe"
  by (simp add: createHttpLink_def Let_def)

lemma execute_FromError:
  "createHttpLink fb lo op = FromError pe \<Longrightarrow>
   calls (execute request fb lo op t) = calls t
   \<and> events (execute request fb lo op t) = events t @ [Error (ParseError pe)]"
  by (simp add: execute_def)

lemma execute_NewObservable:
  "createHttpLink fb lo op = NewObservable config \<Longrightarrow>
   calls (execute request fb lo op t) = calls t @ [config]
   \<and> events (execute request fb lo op t) =
       events t @ (case request config of
                     Resolves res \<Rightarrow> onFulfilled res
                   | Rejects err \<Rightarrow> onRejected err
                   | Pending \<Rightarrow> [])"
  by (simp add: execute_def)

lemma variables_fail:
  "body.variables b = Some vs \<Longrightarrow> stringify (JObj vs) = Inl e \<Longrightarrow>
   rewriteURIForGET u b = Inl (ClientParseError ''Variables map'' e)"
  unfolding rewriteURIForGET_def queryParams_def serializeFetchParameter_def Let_def
  by (simp split: option.splits)

lemma extensions_fail:
  "body.variables b = None \<or> (\<exists>vs s. body.variables b = Some vs \<and> stringify (JObj vs) = Inr s) \<Longrightarrow>
   body.extensions b = Some es \<Longrightarrow> stringify (JObj es) = Inl e \<Longrightarrow>
   rewriteURIForGET u b = Inl (ClientParseError ''Extensions map'' e)"
  unfolding rewriteURIForGET_def queryParams_def serializeFetchParameter_def Let_def
  by (auto split: option.splits)

lemma query_request:
  "createHttpLink fallbackHttpConfig defaultLinkOptions queryOperation =
     NewObservable
       \<lparr> http_request.url = ''/graphql'',
         http_request.method' = Some ''POST'',
         http_request.data =
           Some \<lparr> body.query = Some ''{a}'', body.operationName = None,
                  body.variables = Some [(''x'', JNum 1)], body.extensions = None \<rparr>,
         http_request.headers = [''Content-Type'' \<mapsto> ''application/json''] \<rparr>"
  by (simp add: model_defs example_defs Let_def)

lemma bigInt_selected:
  "optionsAndBody fallbackHttpConfig extensionsLinkOptions bigIntVariablesOperation =
     (\<lparr> request_options.method' = Some ''POST'',
        request_options.headers = Map.empty,
        request_options.credentials = None,
        request_options.body = None \<rparr>,
      \<lparr> body.query = Some ''{a}'',
        body.operationName = None,
        body.variables = Some [(''n'', JBigInt 1)],
        body.extensions = Some [(''m'', JBigInt 2)] \<rparr>)"
  by (simp add: model_defs example_defs extensionsLinkOptions_def bigIntVariablesOperation_def bigIntExtensionsOperation_def Let_def)

lemma bigIntExtensions_selected:
  "optionsAndBody fallbackHttpConfig extensionsLinkOptions bigIntExtensionsOperation =
     (\<lparr> request_options.method' = Some ''POST'',
        request_options.headers = Map.empty,
        request_options.credentials = None,
        request_options.body = None \<rparr>,
      \<lparr> body.query = Some ''{a}'',
        body.operationName = None,
        body.variables = Some [(''x'', JNum 1)],
        body.extensions = Some [(''m'', JBigInt 2)] \<rparr>)"
  by (simp add: model_defs example_defs extensionsLinkOptions_def bigIntVariablesOperation_def bigIntExtensionsOperation_def Let_def)

lemma plainText_request:
  "createHttpLink fallbackHttpConfig plainTextLinkOptions plainTextOperation =
     NewObservable
       \<lparr> http_request.url = ''/graphql'',
         http_request.method' = Some ''POST'',
         http_request.data =
           Some \<lparr> body.query = Some ''mutation{b}'', body.operationName = None,
                  body.variables = None, body.extensions = None \<rparr>,
         http_request.headers =
           [''Content-Type'' \<mapsto> ''text/plain''] ++ [''Content-Type'' \<mapsto> ''text/html'']
             ++ [''Content-Type'' \<mapsto> ''application/json''] \<rparr>"
  by (simp add: model_defs example_defs plainTextLinkOptions_def plainTextOperation_def Let_def)

lemma aware_request:
  "createHttpLink fallbackHttpConfig defaultLinkOptions awareOperation =
     NewObservable
       \<lparr> http_request.url = ''/graphql'',
         http_request.method' = Some ''POST'',
         http_request.data =
           Some \<lparr> body.query = Some ''{a}'', body.operationName = None,
                  body.variables = Some [(''x'', JNum 1)], body.extensions = None \<rparr>,
         http_request.headers =
           (request_options.headers
             (fst (optionsAndBody fallbackHttpConfig defaultLinkOptions awareOperation)))
             (''Content-Type'' \<mapsto> ''application/json'') \<rparr>"
  by (simp add: model_defs example_defs awareContext_def awareOperation_def Let_def)

lemma override_request:
  "createHttpLink fallbackHttpConfig defaultLinkOptions overrideOperation =
     NewObservable
       \<lparr> http_request.url = ''/graphql'',
         http_request.method' = Some ''POST'',
         http_request.data =
           Some \<lparr> body.query = Some ''{a}'', body.operationName = None,
                  body.variables = Some [(''x'', JNum 1)], body.extensions = None \<rparr>,
         http_request.headers =
           (request_options.headers
             (fst (optionsAndBody fallbackHttpConfig defaultLinkOptions overrideOperation)))
             (''Content-Type'' \<mapsto> ''application/json'') \<rparr>"
  by (simp add: model_defs example_defs awareContext_def overrideOperation_def Let_def)

section \<open>The method of the request\<close>

text \<open>
  Claim C1. When useGETForQueries is true, the handler forces the method to GET exactly when
  no top-level definition of the operation is a mutation operation: without a mutation the
  assignment gives GET whatever the merged options say, and the request goes out with GET;
  with a mutation the merged options are left as they are and the request carries their
  method, which is POST when neither the link nor the context sets one over the fallback.
\<close>

theorem useGETForQueries_method:
  assumes get: "useGETForQueries lo = Some True"
  shows "((\<forall>opts. request_options.method' (setMethodForQueries lo op opts) = Some ''GET'')
            \<longleftrightarrow> \<not> (OperationDefinition Mutation \<in> set (definitions (operation.query op))))
       \<and> (\<not> (OperationDefinition Mutation \<in> set (definitions (operation.query op)))
            \<longrightarrow> (\<forall>config. createHttpLink fb lo op = NewObservable config
                    \<longrightarrow> http_request.method' config = Some ''GET''))
       \<and> ((OperationDefinition Mutation \<in> set (definitions (operation.query op)))
            \<longrightarrow> (\<forall>opts. setMethodForQueries lo op opts = opts)
              \<and> (\<forall>config. createHttpLink fb lo op = NewObservable config
                    \<longrightarrow> http_request.method' config
                        = request_options.method' (fst (optionsAndBody fb lo op))))
       \<and> (link_options.fetchOptions lo = None
            \<and> operation_context.fetchOptions (getContext op) = None
            \<longrightarrow> request_options.method' (fst (optionsAndBody fallbackHttpConfig lo op)) = Some ''POST'')"
proof -
  have mut: "list_ex definitionIsMutation ds = (OperationDefinition Mutation \<in> set ds)" for ds
  proof (induction ds)
    case Nil
    show ?case by simp
  next
    case (Cons d ds)
    have "definitionIsMutation d = (d = OperationDefinition Mutation)"
      by (cases d) auto
    with Cons show ?case by auto
  qed
  let ?M = "OperationDefinition Mutation \<in> set (definitions (operation.query op))"
  have forced: "\<not> ?M \<Longrightarrow> request_options.method' (setMethodForQueries lo op opts) = Some ''GET''" for opts
    using get by (simp add: setMethodForQueries_def mut)
  have kept: "?M \<Longrightarrow> setMethodForQueries lo op opts = opts" for opts
    by (simp add: setMethodForQueries_def mut)
  have "request_options.method' (setMethodForQueries lo op postOptions) \<noteq> Some ''GET''" if ?M
    using kept [OF that] by (simp add: postOptions_def)
  then have iff: "(\<forall>opts. request_options.method' (setMethodForQueries lo op opts) = Some ''GET'') \<longleftrightarrow> \<not> ?M"
    using forced by blast
  have c2: "\<not> ?M \<longrightarrow> (\<forall>config. createHttpLink fb lo op = NewObservable config
                    \<longrightarrow> http_request.method' config = Some ''GET'')"
    using forced by (auto dest: request_method)
  have c3: "?M \<longrightarrow> (\<forall>opts. setMethodForQueries lo op opts = opts)
              \<and> (\<forall>config. createHttpLink fb lo op = NewObservable config
                    \<longrightarrow> http_request.method' config
                        = request_options.method' (fst (optionsAndBody fb lo op)))"
    using kept by (auto dest: request_method)
  have c4: "link_options.fetchOptions lo = None
            \<and> operation_context.fetchOptions (getContext op) = None
            \<longrightarrow> request_options.method' (fst (optionsAndBody fallbackHttpConfig lo op)) = Some ''POST''"
    by (simp add: merged_method fallbackHttpConfig_def)
  from iff c2 c3 c4 show ?thesis by blast
qed

theorem useGETForQueries_method_witness:
  "useGETForQueries getLinkOptions = Some True
   \<and> request_options.method' (setMethodForQueries getLinkOptions queryOperation postOptions) = Some ''GET''
   \<and> request_options.method' (setMethodForQueries getLinkOptions mutationOperation postOptions) = Some ''POST''
   \<and> request_options.method' (fst (optionsAndBody fallbackHttpConfig getLinkOptions mutationOperation)) = Some ''POST''"
proof -
  have get: "useGETForQueries getLinkOptions = Some True"
    by (simp add: getLinkOptions_def)
  have noMut: "\<not> (OperationDefinition Mutation \<in> set (definitions (operation.query queryOperation)))"
    by (simp add: queryOperation_def)
  have someMut: "OperationDefinition Mutation \<in> set (definitions (operation.query mutationOperation))"
    by (simp add: mutationOperation_def)
  have none: "link_options.fetchOptions getLinkOptions = None
      \<and> operation_context.fetchOptions (getContext mutationOperation) = None"
    by (simp add: getLinkOptions_def defaultLinkOptions_def mutationOperation_def plainContext_def)
  from useGETForQueries_method [OF get, of queryOperation fallbackHttpConfig] noMut
  have a: "request_options.method' (setMethodForQueries getLinkOptions queryOperation postOptions) = Some ''GET''"
    by blast
  from useGETForQueries_method [OF get, of mutationOperation fallbackHttpConfig] someMut none
  have b: "setMethodForQueries getLinkOptions mutationOperation postOptions = postOptions"
    and c: "request_options.method' (fst (optionsAndBody fallbackHttpConfig getLinkOptions mutationOperation)) = Some ''POST''"
    by blast+
  from get a b c show ?thesis by (simp add: postOptions_def)
qed

section \<open>The parameters of a GET request\<close>

text \<open>
  Claim C2, as amended. Whenever the parameters are built without a parse error, they are
  exactly these, in this order: \<open>query\<close> when the body has one, \<open>operationName\<close> when it is
  a string that is not empty, \<open>variables\<close> and \<open>extensions\<close> when the body has them. The
  query and the operation name are URL-encoded as they are; variables and extensions are
  JSON-serialized and the serialization is URL-encoded. The rewritten URI carries these
  parameters, joined by \<open>&\<close>, between the part of the base before its fragment and the
  fragment. The body with the query \<open>{a}\<close> and the variables \<open>{x: 1}\<close> against \<open>/graphql\<close>
  gives the URI of the claim.
\<close>

theorem queryParams_of_body:
  assumes ok: "queryParams b = Inr ps"
  shows "ps =
      (case body.query b of
         Some q \<Rightarrow> [''query='' @ encodeURIComponent q] | None \<Rightarrow> [])
      @ (case body.operationName b of
           Some n \<Rightarrow> (if n = [] then [] else [''operationName='' @ encodeURIComponent n])
         | None \<Rightarrow> [])
      @ (case body.variables b of
           Some vs \<Rightarrow> (case stringify (JObj vs) of
                        Inr s \<Rightarrow> [''variables='' @ encodeURIComponent s] | Inl e \<Rightarrow> [])
         | None \<Rightarrow> [])
      @ (case body.extensions b of
           Some es \<Rightarrow> (case stringify (JObj es) of
                        Inr s \<Rightarrow> [''extensions='' @ encodeURIComponent s] | Inl e \<Rightarrow> [])
         | None \<Rightarrow> [])
    \<and> rewriteURIForGET u b =
        Inr (takeWhile (\<lambda>c. c \<noteq> CHR ''#'') u
             @ (if CHR ''?'' \<in> set (takeWhile (\<lambda>c. c \<noteq> CHR ''#'') u) then ''&'' else ''?'')
             @ join ''&'' ps
             @ dropWhile (\<lambda>c. c \<noteq> CHR ''#'') u)
    \<and> rewriteURIForGET ''/graphql'' plainBody
        = Inr ''/graphql?query=%7Ba%7D&variables=%7B%22x%22%3A1%7D''"
proof (intro conjI)
  show "ps =
      (case body.query b of
         Some q \<Rightarrow> [''query='' @ encodeURIComponent q] | None \<Rightarrow> [])
      @ (case body.operationName b of
           Some n \<Rightarrow> (if n = [] then [] else [''operationName='' @ encodeURIComponent n])
         | None \<Rightarrow> [])
      @ (case body.variables b of
           Some vs \<Rightarrow> (case stringify (JObj vs) of
                        Inr s \<Rightarrow> [''variables='' @ encodeURIComponent s] | Inl e \<Rightarrow> [])
         | None \<Rightarrow> [])
      @ (case body.extensions b of
           Some es \<Rightarrow> (case stringify (JObj es) of
                        Inr s \<Rightarrow> [''extensions='' @ encodeURIComponent s] | Inl e \<Rightarrow> [])
         | None \<Rightarrow> [])"
    using ok
    unfolding queryParams_def addQueryParam_def serializeFetchParameter_def Let_def
    by (auto split: option.splits sum.splits if_splits)
  show "rewriteURIForGET u b =
        Inr (takeWhile (\<lambda>c. c \<noteq> CHR ''#'') u
             @ (if CHR ''?'' \<in> set (takeWhile (\<lambda>c. c \<noteq> CHR ''#'') u) then ''&'' else ''?'')
             @ join ''&'' ps
             @ dropWhile (\<lambda>c. c \<noteq> CHR ''#'') u)"
    using ok by (rule reconstruct)
  show "rewriteURIForGET ''/graphql'' plainBody
        = Inr ''/graphql?query=%7Ba%7D&variables=%7B%22x%22%3A1%7D''"
    by (simp add: plainBody_def serialize_defs)
qed

theorem queryParams_of_body_witness:
  "queryParams plainBody = Inr [''query=%7Ba%7D'', ''variables=%7B%22x%22%3A1%7D'']
   \<and> rewriteURIForGET ''/graphql#top'' plainBody
       = Inr ''/graphql?query=%7Ba%7D&variables=%7B%22x%22%3A1%7D#top''"
proof -
  have ok: "queryParams plainBody = Inr [''query=%7Ba%7D'', ''variables=%7B%22x%22%3A1%7D'']"
    by (simp add: plainBody_def serialize_defs)
  from queryParams_of_body [OF ok, of "''/graphql#top''"] ok show ?thesis by simp
qed

text \<open>
  Claim C2 as stated fails on an operation name that is the empty string: the name is on
  the body, the source tests it with \<open>if (body.operationName)\<close>, and no parameter is
  appended for it.
\<close>

theorem empty_operationName_counterexample:
  "rewriteURIForGET ''/graphql'' emptyNameBody = Inr ''/graphql?query=%7Ba%7D''
   \<and> ''/graphql?'' @ join ''&'' (statedQueryParams emptyNameBody)
       = ''/graphql?query=%7Ba%7D&operationName=''
   \<and> rewriteURIForGET ''/graphql'' emptyNameBody
       \<noteq> Inr (''/graphql?'' @ join ''&'' (statedQueryParams emptyNameBody))"
  by (simp add: emptyNameBody_def queryOnlyBody_def statedQueryParams_def serialize_defs)

section \<open>The shape of the rewritten URI\<close>

text \<open>
  Claim C7. For every base URI, when the parameters are built, the rewritten URI is the part
  before the first \<open>#\<close>, then \<open>?\<close> when that part has no \<open>?\<close> and \<open>&\<close> otherwise, then
  the parameters joined by \<open>&\<close>, then the fragment from the \<open>#\<close> on. The base
  \<open>https://h/g#frag\<close> keeps its fragment at the end, and a base with \<open>?existing=1\<close>
  continues with \<open>&\<close>.
\<close>

theorem rewritten_URI_shape:
  assumes ok: "queryParams b = Inr ps"
  shows "rewriteURIForGET u b =
           Inr (takeWhile (\<lambda>c. c \<noteq> CHR ''#'') u
                @ (if CHR ''?'' \<in> set (takeWhile (\<lambda>c. c \<noteq> CHR ''#'') u) then ''&'' else ''?'')
                @ join ''&'' ps
                @ dropWhile (\<lambda>c. c \<noteq> CHR ''#'') u)
       \<and> rewriteURIForGET ''https://h/g#frag'' queryOnlyBody = Inr ''https://h/g?query=%7Ba%7D#frag''
       \<and> rewriteURIForGET ''https://h/g?existing=1'' queryOnlyBody
           = Inr ''https://h/g?existing=1&query=%7Ba%7D''"
proof (intro conjI)
  show "rewriteURIForGET u b =
           Inr (takeWhile (\<lambda>c. c \<noteq> CHR ''#'') u
                @ (if CHR ''?'' \<in> set (takeWhile (\<lambda>c. c \<noteq> CHR ''#'') u) then ''&'' else ''?'')
                @ join ''&'' ps
                @ dropWhile (\<lambda>c. c \<noteq> CHR ''#'') u)"
    using ok by (rule reconstruct)
  show "rewriteURIForGET ''https://h/g#frag'' queryOnlyBody = Inr ''https://h/g?query=%7Ba%7D#frag''"
    by (simp add: queryOnlyBody_def serialize_defs)
  show "rewriteURIForGET ''https://h/g?existing=1'' queryOnlyBody
           = Inr ''https://h/g?existing=1&query=%7Ba%7D''"
    by (simp add: queryOnlyBody_def serialize_defs)
qed

theorem rewritten_URI_shape_witness:
  "queryParams plainBody = Inr [''query=%7Ba%7D'', ''variables=%7B%22x%22%3A1%7D'']
   \<and> rewriteURIForGET ''/api?k=v#top'' plainBody
       = Inr ''/api?k=v&query=%7Ba%7D&variables=%7B%22x%22%3A1%7D#top''"
proof -
  have ok: "queryParams plainBody = Inr [''query=%7Ba%7D'', ''variables=%7B%22x%22%3A1%7D'']"
    by (simp add: plainBody_def serialize_defs)
  from rewritten_URI_shape [OF ok, of "''/api?k=v#top''"] ok show ?thesis by simp
qed

section \<open>Serialization failure\<close>

text \<open>
  Claim C3. For a GET request, when JSON-serializing the variables fails, the stream of the
  handler delivers the parse error of the variables as its only event and the transport is
  not called, whatever the extensions are: nothing is built after the failure. When the
  variables are absent or serialize and the extensions fail, the stream delivers the parse
  error of the extensions, and the transport is not called either.
\<close>

theorem serialization_failure:
  assumes sel: "optionsAndBody fb lo op = (opts, b)"
      and get: "request_options.method' (setMethodForQueries lo op opts) = Some ''GET''"
  shows "(\<forall>vs e. body.variables b = Some vs \<and> stringify (JObj vs) = Inl e \<longrightarrow>
            calls (execute request fb lo op t) = calls t
            \<and> events (execute request fb lo op t)
                = events t @ [Error (ParseError (ClientParseError ''Variables map'' e))])
       \<and> (\<forall>es e. (body.variables b = None
                    \<or> (\<exists>vs s. body.variables b = Some vs \<and> stringify (JObj vs) = Inr s))
                 \<and> body.extensions b = Some es \<and> stringify (JObj es) = Inl e \<longrightarrow>
            calls (execute request fb lo op t) = calls t
            \<and> events (execute request fb lo op t)
                = events t @ [Error (ParseError (ClientParseError ''Extensions map'' e))])"
proof -
  have from_error:
    "calls (execute request fb lo op t) = calls t
     \<and> events (execute request fb lo op t) = events t @ [Error (ParseError pe)]"
    if "rewriteURIForGET (chosenURI lo op) b = Inl pe" for pe
  proof -
    from sel get that have "createHttpLink fb lo op = FromError pe"
      by (intro parse_error_result) simp_all
    then show ?thesis by (rule execute_FromError)
  qed
  show ?thesis
  proof (intro conjI allI impI)
    fix vs e
    assume "body.variables b = Some vs \<and> stringify (JObj vs) = Inl e"
    then have "body.variables b = Some vs" and "stringify (JObj vs) = Inl e"
      by blast+
    then have "rewriteURIForGET (chosenURI lo op) b = Inl (ClientParseError ''Variables map'' e)"
      by (rule variables_fail)
    from from_error [OF this]
    show "calls (execute request fb lo op t) = calls t"
      and "events (execute request fb lo op t)
            = events t @ [Error (ParseError (ClientParseError ''Variables map'' e))]"
      by simp_all
  next
    fix es e
    assume "(body.variables b = None
              \<or> (\<exists>vs s. body.variables b = Some vs \<and> stringify (JObj vs) = Inr s))
            \<and> body.extensions b = Some es \<and> stringify (JObj es) = Inl e"
    then have "body.variables b = None
              \<or> (\<exists>vs s. body.variables b = Some vs \<and> stringify (JObj vs) = Inr s)"
      and "body.extensions b = Some es" and "stringify (JObj es) = Inl e"
      by blast+
    then have "rewriteURIForGET (chosenURI lo op) b = Inl (ClientParseError ''Extensions map'' e)"
      by (rule extensions_fail)
    from from_error [OF this]
    show "calls (execute request fb lo op t) = calls t"
      and "events (execute request fb lo op t)
            = events t @ [Error (ParseError (ClientParseError ''Extensions map'' e))]"
      by simp_all
  qed
qed

theorem serialization_failure_witness:
  "calls (execute resolvingTransport fallbackHttpConfig extensionsLinkOptions
            bigIntVariablesOperation emptyTrace) = []
   \<and> events (execute resolvingTransport fallbackHttpConfig extensionsLinkOptions
               bigIntVariablesOperation emptyTrace)
       = [Error (ParseError (ClientParseError ''Variables map''
                   (TypeError ''Do not know how to serialize a BigInt'')))]
   \<and> calls (execute resolvingTransport fallbackHttpConfig extensionsLinkOptions
              bigIntExtensionsOperation emptyTrace) = []
   \<and> events (execute resolvingTransport fallbackHttpConfig extensionsLinkOptions
               bigIntExtensionsOperation emptyTrace)
       = [Error (ParseError (ClientParseError ''Extensions map''
                   (TypeError ''Do not know how to serialize a BigInt'')))]"
proof -
  let ?post = "\<lparr> request_options.method' = Some ''POST'',
                 request_options.headers = Map.empty,
                 request_options.credentials = None,
                 request_options.body = None \<rparr>"
  have get1: "request_options.method'
               (setMethodForQueries extensionsLinkOptions bigIntVariablesOperation ?post)
                = Some ''GET''"
    by (simp add: setMethodForQueries_def example_defs extensionsLinkOptions_def bigIntVariablesOperation_def bigIntExtensionsOperation_def)
  have get2: "request_options.method'
               (setMethodForQueries extensionsLinkOptions bigIntExtensionsOperation ?post)
                = Some ''GET''"
    by (simp add: setMethodForQueries_def example_defs extensionsLinkOptions_def bigIntVariablesOperation_def bigIntExtensionsOperation_def)
  have fails1: "stringify (JObj [(''n'', JBigInt 1)])
                 = Inl (TypeError ''Do not know how to serialize a BigInt'')"
    by simp
  have fails2: "stringify (JObj [(''m'', JBigInt 2)])
                 = Inl (TypeError ''Do not know how to serialize a BigInt'')"
    by simp
  have ok2: "\<exists>s. stringify (JObj [(''x'', JNum 1)]) = Inr s"
    by simp
  from serialization_failure [OF bigInt_selected get1, where request = resolvingTransport
      and t = emptyTrace] fails1
  have first: "calls (execute resolvingTransport fallbackHttpConfig extensionsLinkOptions
            bigIntVariablesOperation emptyTrace) = []
   \<and> events (execute resolvingTransport fallbackHttpConfig extensionsLinkOptions
               bigIntVariablesOperation emptyTrace)
       = [Error (ParseError (ClientParseError ''Variables map''
                   (TypeError ''Do not know how to serialize a BigInt'')))]"
    by (simp add: emptyTrace_def)
  from serialization_failure [OF bigIntExtensions_selected get2, where request = resolvingTransport
      and t = emptyTrace] fails2 ok2
  have second: "calls (execute resolvingTransport fallbackHttpConfig extensionsLinkOptions
              bigIntExtensionsOperation emptyTrace) = []
   \<and> events (execute resolvingTransport fallbackHttpConfig extensionsLinkOptions
               bigIntExtensionsOperation emptyTrace)
       = [Error (ParseError (ClientParseError ''Extensions map''
                   (TypeError ''Do not know how to serialize a BigInt'')))]"
    by (simp add: emptyTrace_def)
  from first second show ?thesis by simp
qed

section \<open>The events of a settled call\<close>

text \<open>
  Claim C4. When the call of the transport resolves with a result, the stream delivers
  \<open>Next(result.data)\<close> and then \<open>Complete\<close>, once each, and nothing else.
\<close>

theorem resolution_events:
  assumes "createHttpLink fb lo op = NewObservable config"
      and "request config = Resolves res"
  shows "events (execute request fb lo op t)
           = events t @ [Next (http_response.data res), Complete]"
  using assms by (simp add: execute_NewObservable onFulfilled_def)

theorem resolution_events_witness:
  "events (execute resolvingTransport fallbackHttpConfig defaultLinkOptions queryOperation
             emptyTrace)
     = [Next (JObj [(''foo'', JNum 1)]), Complete]"
proof -
  have "resolvingTransport c = Resolves \<lparr> http_response.data = JObj [(''foo'', JNum 1)] \<rparr>" for c
    by (simp add: resolvingTransport_def)
  from resolution_events [OF query_request this, where t = emptyTrace]
  show ?thesis by (simp add: emptyTrace_def)
qed

text \<open>
  Claim C5, as amended. When the call rejects with an error that is not named AbortError
  and whose \<open>result\<close> has \<open>errors\<close> and \<open>data\<close> that both pass JavaScript's truth test, the
  stream delivers \<open>Next(err.result)\<close> and then \<open>Error(err)\<close>, once each, and no
  \<open>Complete\<close>.
\<close>

theorem partial_result_events:
  assumes "createHttpLink fb lo op = NewObservable config"
      and "request config = Rejects err"
      and "transport_error.name err \<noteq> Some ''AbortError''"
      and "transport_error.result err = Some r"
      and "getProp r ''errors'' = Some es" and "truthy es"
      and "getProp r ''data'' = Some d" and "truthy d"
  shows "events (execute request fb lo op t) = events t @ [Next r, Error (TransportError err)]"
proof -
  from assms(5) have "truthy r" by (cases r) simp_all
  with assms(4-8) have "hasErrorsAndData err"
    by (simp add: hasErrorsAndData_def truthyProp_def)
  with assms(1-4) show ?thesis
    by (simp add: execute_NewObservable onRejected_def)
qed

theorem partial_result_events_witness:
  "events (execute rejectingTransport fallbackHttpConfig defaultLinkOptions queryOperation
             emptyTrace)
     = [Next partialResult, Error (TransportError partialError)]"
proof -
  have rej: "rejectingTransport c = Rejects partialError" for c
    by (simp add: rejectingTransport_def)
  have nm: "transport_error.name partialError \<noteq> Some ''AbortError''"
    by (simp add: partialError_def)
  have res: "transport_error.result partialError = Some partialResult"
    by (simp add: partialError_def)
  have e: "getProp partialResult ''errors'' = Some (JArr [JObj [(''message'', JStr ''boom'')]])"
    by (simp add: partialResult_def)
  have d: "getProp partialResult ''data'' = Some (JObj [(''a'', JNull)])"
    by (simp add: partialResult_def)
  from partial_result_events [OF query_request rej nm res e _ d, where t = emptyTrace]
  show ?thesis by (simp add: emptyTrace_def)
qed

text \<open>
  Claim C5 as stated fails on a rejection named AbortError that carries such a result: the
  source returns from the \<open>catch\<close> handler before it looks at the result, and the stream
  delivers nothing. It fails also on a result whose \<open>data\<close> is null: the test
  \<open>err.result.data\<close> is false and only the error is delivered.
\<close>

theorem abort_or_null_data_counterexample:
  "transport_error.result abortErrorWithResult = Some partialResult
   \<and> getProp partialResult ''errors'' \<noteq> None
   \<and> getProp partialResult ''data'' \<noteq> None
   \<and> events (execute abortingWithResultTransport fallbackHttpConfig defaultLinkOptions
               queryOperation emptyTrace) = []
   \<and> events (execute abortingWithResultTransport fallbackHttpConfig defaultLinkOptions
               queryOperation emptyTrace)
       \<noteq> [Next partialResult, Error (TransportError abortErrorWithResult)]
   \<and> transport_error.result nullDataError = Some nullDataResult
   \<and> getProp nullDataResult ''errors'' \<noteq> None
   \<and> getProp nullDataResult ''data'' = Some JNull
   \<and> events (execute nullDataTransport fallbackHttpConfig defaultLinkOptions
               queryOperation emptyTrace) = [Error (TransportError nullDataError)]"
  by (simp add: execute_def query_request onRejected_def hasErrorsAndData_def truthyProp_def
      abortingWithResultTransport_def abortErrorWithResult_def partialError_def
      partialResult_def nullDataTransport_def nullDataError_def nullDataResult_def emptyTrace_def)

text \<open>
  Claim C6. When the call rejects with an error named AbortError, the stream delivers
  nothing: no \<open>Next\<close>, no \<open>Error\<close>, no \<open>Complete\<close>.
\<close>

theorem abort_is_silent:
  assumes "createHttpLink fb lo op = NewObservable config"
      and "request config = Rejects err"
      and "transport_error.name err = Some ''AbortError''"
  shows "events (execute request fb lo op t) = events t"
  using assms by (simp add: execute_NewObservable onRejected_def)

theorem abort_is_silent_witness:
  "events (execute abortingTransport fallbackHttpConfig defaultLinkOptions queryOperation
             emptyTrace) = []"
proof -
  have rej: "abortingTransport c = Rejects abortError" for c
    by (simp add: abortingTransport_def)
  have nm: "transport_error.name abortError = Some ''AbortError''"
    by (simp add: abortError_def)
  from abort_is_silent [OF query_request rej nm, where t = emptyTrace]
  show ?thesis by (simp add: emptyTrace_def)
qed

section \<open>The calls of the transport\<close>

text \<open>
  Claim C9. One operation, with one subscription to its stream, adds at most one call to
  the calls that the transport has received, whatever the transport answers.
\<close>

theorem one_transport_call:
  "\<exists>new. calls (execute request fb lo op t) = calls t @ new \<and> length new \<le> 1"
proof (cases "createHttpLink fb lo op")
  case (FromError pe)
  then have "calls (execute request fb lo op t) = calls t @ []"
    by (simp add: execute_FromError)
  then show ?thesis by (intro exI [of _ "[]"]) simp
next
  case (NewObservable config)
  then have "calls (execute request fb lo op t) = calls t @ [config]"
    by (simp add: execute_NewObservable)
  then show ?thesis by (intro exI [of _ "[config]"]) simp
qed

theorem one_transport_call_witness:
  "calls (execute resolvingTransport fallbackHttpConfig defaultLinkOptions queryOperation
            emptyTrace)
     = [\<lparr> http_request.url = ''/graphql'',
          http_request.method' = Some ''POST'',
          http_request.data =
            Some \<lparr> body.query = Some ''{a}'', body.operationName = None,
                   body.variables = Some [(''x'', JNum 1)], body.extensions = None \<rparr>,
          http_request.headers = [''Content-Type'' \<mapsto> ''application/json''] \<rparr>]
   \<and> length (calls (execute resolvingTransport fallbackHttpConfig defaultLinkOptions
                      queryOperation emptyTrace)) \<le> 1"
proof -
  from one_transport_call [of resolvingTransport fallbackHttpConfig defaultLinkOptions
      queryOperation emptyTrace]
  obtain new where
    "calls (execute resolvingTransport fallbackHttpConfig defaultLinkOptions queryOperation
       emptyTrace) = calls emptyTrace @ new" and "length new \<le> 1"
    by blast
  then have "length (calls (execute resolvingTransport fallbackHttpConfig defaultLinkOptions
                      queryOperation emptyTrace)) \<le> 1"
    by (simp add: emptyTrace_def)
  then show ?thesis
    by (simp add: execute_def query_request emptyTrace_def)
qed

section \<open>The headers of the request\<close>

text \<open>
  Claim C10. Every call that an operation makes, with GET or with any other method, binds
  the header \<open>Content-Type\<close> to \<open>application/json\<close>, whatever the fallback, the options of
  the link, the client awareness and the headers of the context bind this name to.
\<close>

theorem content_type_forced:
  assumes "config \<in> set (calls (execute request fb lo op emptyTrace))"
  shows "http_request.headers config ''Content-Type'' = Some ''application/json''"
proof (cases "createHttpLink fb lo op")
  case (FromError pe)
  with assms show ?thesis by (simp add: execute_FromError emptyTrace_def)
next
  case (NewObservable c)
  with assms have "config = c" by (simp add: execute_NewObservable emptyTrace_def)
  with NewObservable show ?thesis by (simp add: request_headers)
qed

theorem content_type_forced_witness:
  "link_options.headers plainTextLinkOptions ''Content-Type'' = Some ''text/plain''
   \<and> operation_context.headers (getContext plainTextOperation) ''Content-Type'' = Some ''text/html''
   \<and> sentHeader ''Content-Type''
        (execute resolvingTransport fallbackHttpConfig plainTextLinkOptions plainTextOperation
           emptyTrace) = [Some ''application/json'']"
proof -
  let ?c = "\<lparr> http_request.url = ''/graphql'',
         http_request.method' = Some ''POST'',
         http_request.data =
           Some \<lparr> body.query = Some ''mutation{b}'', body.operationName = None,
                  body.variables = None, body.extensions = None \<rparr>,
         http_request.headers =
           [''Content-Type'' \<mapsto> ''text/plain''] ++ [''Content-Type'' \<mapsto> ''text/html'']
             ++ [''Content-Type'' \<mapsto> ''application/json''] \<rparr>"
  have cs: "calls (execute resolvingTransport fallbackHttpConfig plainTextLinkOptions
                     plainTextOperation emptyTrace) = [?c]"
    by (simp add: execute_def plainText_request emptyTrace_def)
  then have "?c \<in> set (calls (execute resolvingTransport fallbackHttpConfig plainTextLinkOptions
                     plainTextOperation emptyTrace))"
    by simp
  from content_type_forced [OF this]
  have "http_request.headers ?c ''Content-Type'' = Some ''application/json''" .
  with cs show ?thesis
    by (simp add: sentHeader_def example_defs plainTextLinkOptions_def plainTextOperation_def)
qed

text \<open>
  Claim C8, as amended. When the context has a client awareness whose name and version are
  strings that are not empty, the headers that the handler builds for the context, and the
  headers of the request, bind \<open>apollographql-client-name\<close> and
  \<open>apollographql-client-version\<close> to them, unless the headers of the context bind the same
  name, in which case they carry the value of the context.
\<close>

theorem client_awareness_headers:
  assumes ca: "clientAwareness (getContext op) = Some ca"
      and n: "client_awareness.name ca = Some n" "n \<noteq> []"
      and v: "client_awareness.version ca = Some v" "v \<noteq> []"
      and req: "createHttpLink fb lo op = NewObservable config"
  shows "contextHeaders (getContext op) ''apollographql-client-name''
           = (case operation_context.headers (getContext op) ''apollographql-client-name'' of
                Some h \<Rightarrow> Some h | None \<Rightarrow> Some n)
       \<and> contextHeaders (getContext op) ''apollographql-client-version''
           = (case operation_context.headers (getContext op) ''apollographql-client-version'' of
                Some h \<Rightarrow> Some h | None \<Rightarrow> Some v)
       \<and> http_request.headers config ''apollographql-client-name''
           = (case operation_context.headers (getContext op) ''apollographql-client-name'' of
                Some h \<Rightarrow> Some h | None \<Rightarrow> Some n)
       \<and> http_request.headers config ''apollographql-client-version''
           = (case operation_context.headers (getContext op) ''apollographql-client-version'' of
                Some h \<Rightarrow> Some h | None \<Rightarrow> Some v)"
proof -
  have aw: "clientAwarenessHeaders (getContext op) ''apollographql-client-name'' = Some n"
    "clientAwarenessHeaders (getContext op) ''apollographql-client-version'' = Some v"
    using ca n v by (simp_all add: clientAwarenessHeaders_def Let_def)
  have ctx: "contextHeaders (getContext op) ''apollographql-client-name''
           = (case operation_context.headers (getContext op) ''apollographql-client-name'' of
                Some h \<Rightarrow> Some h | None \<Rightarrow> Some n)"
    "contextHeaders (getContext op) ''apollographql-client-version''
           = (case operation_context.headers (getContext op) ''apollographql-client-version'' of
                Some h \<Rightarrow> Some h | None \<Rightarrow> Some v)"
    using aw by (simp_all add: contextHeaders_def map_add_def split: option.splits)
  have hs: "http_request.headers config =
      (http_config.headers fb ++ link_options.headers lo ++ contextHeaders (getContext op))
        (''Content-Type'' \<mapsto> ''application/json'')"
    using request_headers [OF req] by (simp add: merged_headers)
  have out: "http_request.headers config k = contextHeaders (getContext op) k"
    if "k \<noteq> ''Content-Type''" and "contextHeaders (getContext op) k \<noteq> None" for k
    using that by (auto simp: hs map_add_def split: option.splits)
  have "http_request.headers config ''apollographql-client-name''
          = contextHeaders (getContext op) ''apollographql-client-name''"
    by (rule out) (simp_all add: ctx split: option.splits)
  moreover have "http_request.headers config ''apollographql-client-version''
          = contextHeaders (getContext op) ''apollographql-client-version''"
    by (rule out) (simp_all add: ctx split: option.splits)
  ultimately show ?thesis using ctx by simp
qed

theorem client_awareness_headers_witness:
  "sentHeader ''apollographql-client-name''
     (execute resolvingTransport fallbackHttpConfig defaultLinkOptions awareOperation
        emptyTrace) = [Some ''app'']
   \<and> sentHeader ''apollographql-client-version''
       (execute resolvingTransport fallbackHttpConfig defaultLinkOptions awareOperation
          emptyTrace) = [Some ''1.0'']
   \<and> sentHeader ''apollographql-client-name''
       (execute resolvingTransport fallbackHttpConfig defaultLinkOptions overrideOperation
          emptyTrace) = [Some ''override'']
   \<and> sentHeader ''apollographql-client-version''
       (execute resolvingTransport fallbackHttpConfig defaultLinkOptions overrideOperation
          emptyTrace) = [Some ''1.0'']"
proof -
  let ?ca = "\<lparr> client_awareness.name = Some ''app'', client_awareness.version = Some ''1.0'' \<rparr>"
  have ca1: "clientAwareness (getContext awareOperation) = Some ?ca"
    by (simp add: example_defs awareContext_def awareOperation_def)
  have h1: "operation_context.headers (getContext awareOperation) = Map.empty"
    by (simp add: example_defs awareContext_def awareOperation_def)
  have ca2: "clientAwareness (getContext overrideOperation) = Some ?ca"
    by (simp add: example_defs awareContext_def overrideOperation_def)
  have h2: "operation_context.headers (getContext overrideOperation)
             = [''apollographql-client-name'' \<mapsto> ''override'']"
    by (simp add: example_defs awareContext_def overrideOperation_def)
  from client_awareness_headers [OF ca1 _ _ _ _ aware_request, of "''app''" "''1.0''"]
  have first: "sentHeader ''apollographql-client-name''
     (execute resolvingTransport fallbackHttpConfig defaultLinkOptions awareOperation
        emptyTrace) = [Some ''app'']
   \<and> sentHeader ''apollographql-client-version''
       (execute resolvingTransport fallbackHttpConfig defaultLinkOptions awareOperation
          emptyTrace) = [Some ''1.0'']"
    by (simp add: sentHeader_def execute_def aware_request emptyTrace_def h1)
  from client_awareness_headers [OF ca2 _ _ _ _ override_request, of "''app''" "''1.0''"]
  have second: "sentHeader ''apollographql-client-name''
       (execute resolvingTransport fallbackHttpConfig defaultLinkOptions overrideOperation
          emptyTrace) = [Some ''override'']
   \<and> sentHeader ''apollographql-client-version''
       (execute resolvingTransport fallbackHttpConfig defaultLinkOptions overrideOperation
          emptyTrace) = [Some ''1.0'']"
    by (simp add: sentHeader_def execute_def override_request emptyTrace_def h2)
  from first second show ?thesis by simp
qed

text \<open>
  Claim C8 as stated fails on a client awareness whose name is the empty string: the source
  tests it with \<open>if (name)\<close> and sets no header for it, so neither the headers built for
  the context nor the request have one.
\<close>

theorem empty_name_counterexample:
  "clientAwareness (getContext emptyNameOperation)
     = Some \<lparr> client_awareness.name = Some [], client_awareness.version = Some ''1.0'' \<rparr>
   \<and> contextHeaders (getContext emptyNameOperation) ''apollographql-client-name'' = None
   \<and> sentHeader ''apollographql-client-name''
       (execute resolvingTransport fallbackHttpConfig defaultLinkOptions emptyNameOperation
          emptyTrace) = [None]
   \<and> sentHeader ''apollographql-client-version''
       (execute resolvingTransport fallbackHttpConfig defaultLinkOptions emptyNameOperation
          emptyTrace) = [Some ''1.0'']"
  by (simp add: sentHeader_def execute_def model_defs example_defs emptyNameOperation_def
      emptyTrace_def Let_def)

end
